theory Spec2Isabelle
  imports Complex_Main "HOL-Library.Sublist"
begin

section \<open>JavaScript values used by the tracker\<close>

text \<open>
  The tracker is TypeScript. Its \<^verbatim>\<open>number\<close>s are modelled as exact numbers: \<^typ>\<open>real\<close>
  for quantities that may carry a fraction (weights, grams, kilocalories) and \<^typ>\<open>int\<close>
  for millisecond timestamps and hour counts, which the code only ever produces from
  integer literals, \<^verbatim>\<open>parseInt\<close> and \<^verbatim>\<open>Date.getTime()\<close>. The model therefore
  covers finite numbers with exact arithmetic; the infinities and the binary rounding of
  IEEE doubles are outside it. Where the code itself tests for a missing or unparsable
  number (\<^verbatim>\<open>x || d\<close>, \<^verbatim>\<open>!x\<close>), or where a call returns \<^verbatim>\<open>NaN\<close> as its whole
  result, the missing value is \<^term>\<open>None\<close>.
\<close>

definition Math_round :: "real \<Rightarrow> int" where
  \<comment> \<open>\<^verbatim>\<open>Math.round\<close>: the nearest integer, a tie going up.\<close>
  "Math_round x = \<lfloor>x + 1 / 2\<rfloor>"

definition num_or :: "real \<Rightarrow> real \<Rightarrow> real" where
  \<comment> \<open>\<^verbatim>\<open>x || d\<close> on a number: zero is falsy.\<close>
  "num_or x d = (if x = 0 then d else x)"

definition opt_or :: "int option \<Rightarrow> int \<Rightarrow> int" where
  \<comment> \<open>\<^verbatim>\<open>x || d\<close> on an optional or unparsable number: undefined, NaN and zero are falsy.\<close>
  "opt_or x d = (case x of None \<Rightarrow> d | Some n \<Rightarrow> if n = 0 then d else n)"

text \<open>
  Strings are lists of 8-bit characters, read as the code units U+0000 to U+00FF. In that
  range \<^verbatim>\<open>toLowerCase\<close> moves the letters A to Z and the accented capitals U+00C0 to
  U+00DE (the multiplication sign U+00D7 apart) up by 32 and leaves the rest alone.
\<close>

definition toLowerChar :: "char \<Rightarrow> char" where
  "toLowerChar c =
     (let n = (of_char c :: nat) in
      if (65 \<le> n \<and> n \<le> 90) \<or> (192 \<le> n \<and> n \<le> 222 \<and> n \<noteq> 215) then char_of (n + 32)
      else c)"

definition toLowerCase :: "string \<Rightarrow> string" where
  "toLowerCase s = map toLowerChar s"

fun str_includes :: "string \<Rightarrow> string \<Rightarrow> bool" where
  \<comment> \<open>\<^verbatim>\<open>s.includes(t)\<close>: \<open>t\<close> occurs in \<open>s\<close> as a contiguous run.\<close>
  "str_includes [] t = (t = [])"
| "str_includes (c # cs) t = (prefix t (c # cs) \<or> str_includes cs t)"

text \<open>
  What the specification calls a case-insensitive substring match, in its own words: some
  contiguous part of the text reads as the keyword once put in lower case.
\<close>

definition containsIgnoringCase :: "string \<Rightarrow> string \<Rightarrow> bool" where
  "containsIgnoringCase s kw =
     (\<exists>pre mid post. s = pre @ mid @ post \<and> toLowerCase mid = kw)"

text \<open>
  \<^verbatim>\<open>parseInt(string)\<close> with no radix, as ECMAScript defines it: leading white space is
  dropped, one sign is read, a \<^verbatim>\<open>0x\<close> prefix switches to radix 16, and the longest run
  of digits is converted; no digit at all gives NaN (\<^term>\<open>None\<close>). The white space
  and line terminators below U+0100 are tab, line feed, vertical tab, form feed, carriage
  return, space and the no-break space U+00A0.
\<close>

definition isWhiteSpace :: "char \<Rightarrow> bool" where
  "isWhiteSpace c = ((of_char c :: nat) \<in> {9, 10, 11, 12, 13, 32, 160})"




definition digitValue :: "nat \<Rightarrow> char \<Rightarrow> nat option" where
  "digitValue R c =
     (let n = (of_char c :: nat);
          v = (if 48 \<le> n \<and> n \<le> 57 then Some (n - 48)
               else if 97 \<le> n \<and> n \<le> 122 then Some (n - 87)
               else if 65 \<le> n \<and> n \<le> 90 then Some (n - 55)
               else None)
      in case v of None \<Rightarrow> None | Some d \<Rightarrow> if d < R then Some d else None)"

fun parseDigits :: "nat \<Rightarrow> nat option \<Rightarrow> string \<Rightarrow> nat option" where
  \<comment> \<open>The accumulator is \<^term>\<open>None\<close> until the first digit has been read.\<close>
  "parseDigits R acc [] = acc"
| "parseDigits R acc (c # cs) =
     (case digitValue R c of
        None \<Rightarrow> acc
      | Some d \<Rightarrow> parseDigits R (Some ((case acc of None \<Rightarrow> 0 | Some a \<Rightarrow> a) * R + d)) cs)"

definition parseInt :: "string \<Rightarrow> int option" where
  "parseInt inputString =
     (let s = dropWhile isWhiteSpace inputString;
          (sign, s1) = (case s of
                          [] \<Rightarrow> (1, s)
                        | c # cs \<Rightarrow> if c = CHR ''-'' then (- 1, cs)
                                   else if c = CHR ''+'' then (1, cs) else (1, s));
          (R, s2) = (case s1 of
                       a # b # rest \<Rightarrow>
                         if a = CHR ''0'' \<and> (b = CHR ''x'' \<or> b = CHR ''X'') then (16, rest)
                         else (10, s1)
                     | _ \<Rightarrow> (10, s1))
      in map_option (\<lambda>n. sign * int n) (parseDigits R None s2))"

section \<open>Data model (types.ts)\<close>


datatype IFProtocolType = SIXTEEN_EIGHT | EIGHTEEN_SIX | CUSTOM

datatype FastingPhase = FASTING | EATING

datatype TimerStatus = NOT_ACTIVE | ACTIVE | PAUSED

text \<open>
  The enums \<^verbatim>\<open>Sex\<close> and \<^verbatim>\<open>ActivityLevel\<close> are strings at run time and index the
  coefficient tables by that string, so a value outside the enum is representable.
\<close>

definition Sex_MALE :: string where
  "Sex_MALE = ''Male''"


record IFProtocol =
  type :: IFProtocolType
  fastingHours :: "int option"
  eatingHours :: "int option"

text \<open>One row of the Mifflin-St Jeor table of constants.ts.\<close>

record Coefficients =
  weight :: real
  height :: real
  age :: real
  constant' :: real

record PersonalDetails =
  age :: real
  sex :: string
  heightCm :: real
  currentWeightKg :: real

record UserGoals =
  targetWeightKg :: real
  targetDate :: string
  planDescription :: string

record DietaryPreferences =
  interestedInIF :: bool
  ifProtocol :: IFProtocol
  interestedInRefeedDays :: bool

record CalculatedNutrition =
  bmr :: real
  tdee :: real

record FoodEntry =
  entryId :: string
  name :: string
  calories :: real
  protein :: real
  carbs :: real
  fat :: real
  servingSize :: string
  quantity :: real
  loggedAt :: string
  mealTime :: string

record MacroNutrients =
  protein :: real
  carbs :: real
  fat :: real
  calories :: real

record UserProfile =
  personalDetails :: PersonalDetails
  activityLevel :: string
  goals :: UserGoals
  dietaryPreferences :: DietaryPreferences
  calculatedNutrition :: CalculatedNutrition
  targetMacros :: MacroNutrients
  quizCompleted :: bool

text \<open>
  Timestamps are ISO strings in the source, read back with \<^verbatim>\<open>new Date(s).getTime()\<close>;
  the model keeps the millisecond count itself, \<^term>\<open>None\<close> for an absent field.
\<close>

record FastingTimerState =
  status :: TimerStatus
  currentPhase :: FastingPhase
  startTime :: "int option"
  endTime :: "int option"
  phaseStartTime :: "int option"
  pausedDurationMs :: int
  lastPauseTime :: "int option"
  protocol :: IFProtocol

section \<open>Constants (constants.ts)\<close>


definition DEFAULT_IF_PROTOCOLS :: "IFProtocolType \<Rightarrow> IFProtocol" where
  "DEFAULT_IF_PROTOCOLS t =
     (case t of
        SIXTEEN_EIGHT \<Rightarrow> \<lparr>type = SIXTEEN_EIGHT, fastingHours = Some 16, eatingHours = Some 8\<rparr>
      | EIGHTEEN_SIX \<Rightarrow> \<lparr>type = EIGHTEEN_SIX, fastingHours = Some 18, eatingHours = Some 6\<rparr>
      | CUSTOM \<Rightarrow> \<lparr>type = CUSTOM, fastingHours = Some 12, eatingHours = Some 12\<rparr>)"

record MacroSplit =
  proteinRatio :: real
  carbRatio :: real
  fatRatio :: real

definition DEFAULT_MACRO_SPLIT_GENERAL :: MacroSplit where
  "DEFAULT_MACRO_SPLIT_GENERAL = \<lparr>proteinRatio = 0.3, carbRatio = 0.4, fatRatio = 0.3\<rparr>"

definition DEFAULT_MACRO_SPLIT_MUSCLE_GAIN :: MacroSplit where
  "DEFAULT_MACRO_SPLIT_MUSCLE_GAIN = \<lparr>proteinRatio = 0.35, carbRatio = 0.45, fatRatio = 0.2\<rparr>"

definition DEFAULT_MACRO_SPLIT_WEIGHT_LOSS :: MacroSplit where
  "DEFAULT_MACRO_SPLIT_WEIGHT_LOSS = \<lparr>proteinRatio = 0.4, carbRatio = 0.3, fatRatio = 0.3\<rparr>"

definition DEFAULT_MACRO_SPLIT_KETO :: MacroSplit where
  "DEFAULT_MACRO_SPLIT_KETO = \<lparr>proteinRatio = 0.25, carbRatio = 0.05, fatRatio = 0.7\<rparr>"

definition PROTEIN_KCAL_PER_GRAM :: real where
  "PROTEIN_KCAL_PER_GRAM = 4"

definition CARBS_KCAL_PER_GRAM :: real where
  "CARBS_KCAL_PER_GRAM = 4"

definition FAT_KCAL_PER_GRAM :: real where
  "FAT_KCAL_PER_GRAM = 9"

definition DEFAULT_INITIAL_MACROS :: MacroNutrients where
  "DEFAULT_INITIAL_MACROS = \<lparr>protein = 150, carbs = 200, fat = 67, calories = 2000\<rparr>"

definition INITIAL_FASTING_TIMER_STATE :: "IFProtocol option \<Rightarrow> FastingTimerState" where
  "INITIAL_FASTING_TIMER_STATE p =
     \<lparr>status = NOT_ACTIVE, currentPhase = FASTING, startTime = None, endTime = None,
      phaseStartTime = None, pausedDurationMs = 0, lastPauseTime = None,
      protocol = (case p of None \<Rightarrow> DEFAULT_IF_PROTOCOLS SIXTEEN_EIGHT | Some q \<Rightarrow> q)\<rparr>"

section \<open>Nutrition calculator (services/nutritionCalculator)\<close>


definition adjustedCalories :: "real \<Rightarrow> UserGoals \<Rightarrow> real \<Rightarrow> real" where
  \<comment> \<open>\<^verbatim>\<open>suggestMacros\<close>, the calorie target before the split: maintenance, the deficit or
      surplus, and the floor.\<close>
  "adjustedCalories tdee' goals' currentWeightKg' =
     (let calories = tdee';
          weightDiff = targetWeightKg goals' - currentWeightKg';
          calories = (if weightDiff < - 1 then calories - 500
                      else if weightDiff > 1 then calories + 300
                      else calories)
      in max 1200 calories)"

definition selectSplit :: "string \<Rightarrow> MacroSplit" where
  \<comment> \<open>\<^verbatim>\<open>suggestMacros\<close>, the choice of \<^verbatim>\<open>split\<close> from the plan description.\<close>
  "selectSplit planDescription' =
     (let planDesc = toLowerCase planDescription' in
      if str_includes planDesc ''muscle'' \<or> str_includes planDesc ''gain''
        then DEFAULT_MACRO_SPLIT_MUSCLE_GAIN
      else if str_includes planDesc ''keto'' \<or> str_includes planDesc ''low carb''
        then DEFAULT_MACRO_SPLIT_KETO
      else if str_includes planDesc ''lose weight'' \<or> str_includes planDesc ''fat loss''
              \<or> str_includes planDesc ''cut''
        then DEFAULT_MACRO_SPLIT_WEIGHT_LOSS
      else DEFAULT_MACRO_SPLIT_GENERAL)"

definition suggestMacros :: "real \<Rightarrow> UserGoals \<Rightarrow> real \<Rightarrow> MacroNutrients" where
  "suggestMacros tdee' goals' currentWeightKg' =
     (let calories = adjustedCalories tdee' goals' currentWeightKg';
          split = selectSplit (planDescription goals');
          proteinGrams = real_of_int (Math_round ((calories * proteinRatio split) / PROTEIN_KCAL_PER_GRAM));
          carbsGrams = real_of_int (Math_round ((calories * carbRatio split) / CARBS_KCAL_PER_GRAM));
          fatGrams = real_of_int (Math_round ((calories * fatRatio split) / FAT_KCAL_PER_GRAM));
          calculatedCalories = proteinGrams * PROTEIN_KCAL_PER_GRAM
                               + carbsGrams * CARBS_KCAL_PER_GRAM
                               + fatGrams * FAT_KCAL_PER_GRAM
      in \<lparr>protein = proteinGrams, carbs = carbsGrams, fat = fatGrams,
          calories = real_of_int (Math_round calculatedCalories)\<rparr>)"

definition addEntryMacros :: "MacroNutrients \<Rightarrow> FoodEntry \<Rightarrow> MacroNutrients" where
  \<comment> \<open>The callback that \<^verbatim>\<open>sumFoodEntryMacros\<close> passes to \<^verbatim>\<open>reduce\<close>.\<close>
  "addEntryMacros acc entry =
     (let quantity = num_or (FoodEntry.quantity entry) 1 in
      \<lparr>protein = protein acc + num_or (FoodEntry.protein entry) 0 * quantity,
       carbs = carbs acc + num_or (FoodEntry.carbs entry) 0 * quantity,
       fat = fat acc + num_or (FoodEntry.fat entry) 0 * quantity,
       calories = calories acc + num_or (FoodEntry.calories entry) 0 * quantity\<rparr>)"

definition sumFoodEntryMacros :: "FoodEntry list \<Rightarrow> MacroNutrients" where
  "sumFoodEntryMacros entries =
     foldl addEntryMacros \<lparr>protein = 0, carbs = 0, fat = 0, calories = 0\<rparr> entries"

section \<open>Effective goals of a day (components/FoodLogger)\<close>

definition determineEffectiveGoals :: "UserProfile option \<Rightarrow> bool \<Rightarrow> MacroNutrients" where
  "determineEffectiveGoals userProfile isRefeed =
     (case userProfile of
        None \<Rightarrow> DEFAULT_INITIAL_MACROS
      | Some up \<Rightarrow>
          if isRefeed \<and> interestedInRefeedDays (dietaryPreferences up) then
            (let refeedCalories = real_of_int (Math_round (tdee (calculatedNutrition up) * 1.15));
                 calorieRatio = (if calories (targetMacros up) > 0
                                 then refeedCalories / calories (targetMacros up) else 1)
             in \<lparr>protein = real_of_int (Math_round (protein (targetMacros up) * calorieRatio)),
                 carbs = real_of_int (Math_round (carbs (targetMacros up) * calorieRatio)),
                 fat = real_of_int (Math_round (fat (targetMacros up) * calorieRatio)),
                 calories = refeedCalories\<rparr>)
          else targetMacros up)"

section \<open>Fasting timer (components/IFTimerDisplay)\<close>

fun String_nat :: "nat \<Rightarrow> string" where
  \<comment> \<open>\<^verbatim>\<open>String(n)\<close> for a non-negative integer: its decimal digits.\<close>
  "String_nat n =
     (if n < 10 then [char_of (48 + n)] else String_nat (n div 10) @ [char_of (48 + n mod 10)])"

definition String_int :: "int \<Rightarrow> string" where
  "String_int i = (if i < 0 then CHR ''-'' # String_nat (nat (- i)) else String_nat (nat i))"

definition padStart2 :: "string \<Rightarrow> string" where
  \<comment> \<open>\<^verbatim>\<open>s.padStart(2, '0')\<close>\<close>
  "padStart2 s = replicate (2 - length s) CHR ''0'' @ s"

definition formatRemaining :: "int \<Rightarrow> string" where
  \<comment> \<open>Hours, minutes and seconds of a positive millisecond count, as \<^verbatim>\<open>HH:MM:SS\<close>.\<close>
  "formatRemaining diff =
     (let hours = diff div (1000 * 60 * 60);
          diff = diff - hours * (1000 * 60 * 60);
          minutes = diff div (1000 * 60);
          diff = diff - minutes * (1000 * 60);
          seconds = diff div 1000
      in padStart2 (String_int hours) @ '':'' @ padStart2 (String_int minutes) @ '':''
         @ padStart2 (String_int seconds))"

definition remainingMs :: "int \<Rightarrow> FastingTimerState \<Rightarrow> int option" where
  \<comment> \<open>\<^verbatim>\<open>calculateRemainingTime\<close>, its guard and \<^verbatim>\<open>diff = end - now\<close>: the remaining time
      of an active timer that has an end time.\<close>
  "remainingMs now timerState =
     (if status timerState \<noteq> ACTIVE then None
      else map_option (\<lambda>end'. end' - now) (endTime timerState))"

definition flipPhase :: "int \<Rightarrow> int \<Rightarrow> FastingTimerState \<Rightarrow> FastingTimerState" where
  \<comment> \<open>The state update that \<^verbatim>\<open>calculateRemainingTime\<close> issues when the phase is over.
      \<open>nowStart\<close> is what \<^verbatim>\<open>new Date()\<close> reads there and \<open>nowEnd\<close> what \<^verbatim>\<open>Date.now()\<close>
      reads on the next line.\<close>
  "flipPhase nowStart nowEnd prev =
     (let newPhase = (if currentPhase prev = FASTING then EATING else FASTING);
          phaseDurationHours = (if newPhase = FASTING then opt_or (fastingHours (protocol prev)) 0
                                else opt_or (eatingHours (protocol prev)) 0);
          phaseDurationMs = phaseDurationHours * 60 * 60 * 1000;
          newStartTime = nowStart;
          newEndTime = nowEnd + phaseDurationMs
      in prev\<lparr>currentPhase := newPhase, startTime := Some newStartTime,
               endTime := Some newEndTime, phaseStartTime := Some newStartTime,
               pausedDurationMs := 0\<rparr>)"

definition calculateRemainingTime ::
  "int \<Rightarrow> int \<Rightarrow> int \<Rightarrow> FastingTimerState \<Rightarrow> string \<times> FastingTimerState" where
  \<comment> \<open>Returns the text to display and the timer state after the call.\<close>
  "calculateRemainingTime now nowStart nowEnd timerState =
     (case remainingMs now timerState of
        None \<Rightarrow> (''00:00:00'', timerState)
      | Some diff \<Rightarrow>
          if diff \<le> 0 then (''00:00:00'', flipPhase nowStart nowEnd timerState)
          else (formatRemaining diff, timerState))"

definition tick :: "int \<Rightarrow> FastingTimerState \<Rightarrow> FastingTimerState" where
  \<comment> \<open>One sampling step of the one-second interval at the instant \<open>now\<close>: the three clock
      reads of one call of \<^verbatim>\<open>calculateRemainingTime\<close> give the same millisecond.\<close>
  "tick now timerState = snd (calculateRemainingTime now now now timerState)"

definition handleStartFast ::
  "UserProfile option \<Rightarrow> int \<Rightarrow> FastingTimerState \<Rightarrow> FastingTimerState" where
  "handleStartFast userProfile now timerState =
     (if userProfile = None then timerState
      else
        (let protocol' = protocol timerState;
             fastingDurationMs = opt_or (fastingHours protocol') 0 * 60 * 60 * 1000
         in \<lparr>status = ACTIVE, currentPhase = FASTING, startTime = Some now,
             endTime = Some (now + fastingDurationMs), phaseStartTime = Some now,
             pausedDurationMs = 0, lastPauseTime = None, protocol = protocol'\<rparr>))"

definition handlePauseResumeFast :: "int \<Rightarrow> FastingTimerState \<Rightarrow> FastingTimerState" where
  "handlePauseResumeFast now prev =
     (if status prev = ACTIVE then prev\<lparr>status := PAUSED, lastPauseTime := Some now\<rparr>
      else if status prev = PAUSED then
        (case (lastPauseTime prev, endTime prev, phaseStartTime prev) of
           (Some lastPause, Some end', Some _) \<Rightarrow>
             (let pauseMsThisSegment = now - lastPause;
                  newPausedDurationMsTotal = pausedDurationMs prev + pauseMsThisSegment;
                  newEndTime = end' + pauseMsThisSegment
              in prev\<lparr>status := ACTIVE, endTime := Some newEndTime,
                       pausedDurationMs := newPausedDurationMsTotal, lastPauseTime := None\<rparr>)
         | _ \<Rightarrow> prev)
      else prev)"

definition handleEndFast :: "UserProfile option \<Rightarrow> FastingTimerState \<Rightarrow> FastingTimerState" where
  "handleEndFast userProfile timerState =
     (case userProfile of
        None \<Rightarrow> timerState
      | Some up \<Rightarrow> INITIAL_FASTING_TIMER_STATE (Some (ifProtocol (dietaryPreferences up))))"

text \<open>
  The two protocol handlers also read and write the component's own copies of the custom
  hours (\<^verbatim>\<open>useState\<close>), so they act on the timer state together with those copies.
\<close>

record IFTimerDisplay =
  timerState :: FastingTimerState
  customFastingHours :: int
  customEatingHours :: int

datatype CustomHoursField = CustomFastingHours | CustomEatingHours

definition handleProtocolChange :: "IFProtocolType \<Rightarrow> IFTimerDisplay \<Rightarrow> IFTimerDisplay" where
  "handleProtocolChange type' c =
     (let newProtocol =
            (if type' = CUSTOM
             then (DEFAULT_IF_PROTOCOLS type')\<lparr>type := type',
                    fastingHours := Some (customFastingHours c),
                    eatingHours := Some (customEatingHours c)\<rparr>
             else DEFAULT_IF_PROTOCOLS type')
      in c\<lparr>timerState := (timerState c)\<lparr>protocol := newProtocol\<rparr>\<rparr>)"

definition handleCustomHoursChange ::
  "CustomHoursField \<Rightarrow> string \<Rightarrow> IFTimerDisplay \<Rightarrow> IFTimerDisplay" where
  "handleCustomHoursChange name' input c =
     (let hours = opt_or (parseInt input) 0;
          c = (if name' = CustomFastingHours then c\<lparr>customFastingHours := hours\<rparr> else c);
          c = (if name' = CustomEatingHours then c\<lparr>customEatingHours := hours\<rparr> else c);
          prev = timerState c
      in c\<lparr>timerState := prev\<lparr>protocol := (protocol prev)\<lparr>
             type := CUSTOM,
             fastingHours := Some (if name' = CustomFastingHours then hours
                                   else opt_or (fastingHours (protocol prev)) 0),
             eatingHours := Some (if name' = CustomEatingHours then hours
                                  else opt_or (eatingHours (protocol prev)) 0)\<rparr>\<rparr>\<rparr>)"

text \<open>
  The shape of every timer state that the handlers produce: a started timer has its three
  timestamps, and \<^verbatim>\<open>lastPauseTime\<close> is set exactly while the timer is paused.
\<close>

definition timer_inv :: "FastingTimerState \<Rightarrow> bool" where
  "timer_inv s =
     ((status s = NOT_ACTIVE
        \<or> (startTime s \<noteq> None \<and> endTime s \<noteq> None \<and> phaseStartTime s \<noteq> None))
      \<and> ((status s = PAUSED) = (lastPauseTime s \<noteq> None)))"

section \<open>Rounding and the tables\<close>

lemma Math_round_lower: "x - 1 / 2 < real_of_int (Math_round x)"
  unfolding Math_round_def by linarith

lemma Math_round_upper: "real_of_int (Math_round x) \<le> x + 1 / 2"
  unfolding Math_round_def by linarith

lemma Math_round_of_int: "Math_round (real_of_int n) = n"
  unfolding Math_round_def by linarith


lemma split_ratios_sum:
  "proteinRatio (selectSplit d) + carbRatio (selectSplit d) + fatRatio (selectSplit d) = 1"
  by (simp add: selectSplit_def Let_def DEFAULT_MACRO_SPLIT_GENERAL_def
      DEFAULT_MACRO_SPLIT_MUSCLE_GAIN_def DEFAULT_MACRO_SPLIT_WEIGHT_LOSS_def
      DEFAULT_MACRO_SPLIT_KETO_def)

lemma adjustedCalories_floor: "1200 \<le> adjustedCalories t g w"
  by (simp add: adjustedCalories_def Let_def)

lemma selectSplit_keto: "selectSplit ''keto'' = DEFAULT_MACRO_SPLIT_KETO"
  by code_simp

lemma Math_round_mono: "x \<le> y \<Longrightarrow> Math_round x \<le> Math_round y"
  unfolding Math_round_def by (simp add: floor_mono)

lemma selectSplit_cases:
  "selectSplit d = DEFAULT_MACRO_SPLIT_MUSCLE_GAIN \<or> selectSplit d = DEFAULT_MACRO_SPLIT_KETO
   \<or> selectSplit d = DEFAULT_MACRO_SPLIT_WEIGHT_LOSS \<or> selectSplit d = DEFAULT_MACRO_SPLIT_GENERAL"
  by (simp add: selectSplit_def Let_def)

lemma grams_at_floor:
  fixes a r k :: real
  assumes "1200 \<le> a" and "0 \<le> r" and "0 < k"
  shows "Math_round (1200 * r / k) \<le> Math_round (a * r / k)"
proof (rule Math_round_mono)
  have "1200 * r \<le> a * r"
    using assms(1,2) by (rule mult_right_mono)
  then show "1200 * r / k \<le> a * r / k"
    using assms(3) by (simp add: divide_right_mono)
qed

lemma weighted_grams_floor:
  assumes "1200 \<le> a"
  shows "1197 \<le> Math_round (a * proteinRatio (selectSplit d) / 4) * 4
               + Math_round (a * carbRatio (selectSplit d) / 4) * 4
               + Math_round (a * fatRatio (selectSplit d) / 9) * 9"
proof -
  have muscle: "105 \<le> Math_round (a * 0.35 / 4)" "135 \<le> Math_round (a * 0.45 / 4)"
               "27 \<le> Math_round (a * 0.2 / 9)"
    using grams_at_floor [OF assms, of "0.35" 4] grams_at_floor [OF assms, of "0.45" 4]
          grams_at_floor [OF assms, of "0.2" 9]
    by (simp_all add: Math_round_def)
  have keto: "75 \<le> Math_round (a * 0.25 / 4)" "15 \<le> Math_round (a * 0.05 / 4)"
             "93 \<le> Math_round (a * 0.7 / 9)"
    using grams_at_floor [OF assms, of "0.25" 4] grams_at_floor [OF assms, of "0.05" 4]
          grams_at_floor [OF assms, of "0.7" 9]
    by (simp_all add: Math_round_def)
  have loss: "120 \<le> Math_round (a * 0.4 / 4)" "90 \<le> Math_round (a * 0.3 / 4)"
             "40 \<le> Math_round (a * 0.3 / 9)"
    using grams_at_floor [OF assms, of "0.4" 4] grams_at_floor [OF assms, of "0.3" 4]
          grams_at_floor [OF assms, of "0.3" 9]
    by (simp_all add: Math_round_def)
  from selectSplit_cases [of d] show ?thesis
  proof (elim disjE)
    assume "selectSplit d = DEFAULT_MACRO_SPLIT_MUSCLE_GAIN"
    then show ?thesis
      using muscle by (simp add: DEFAULT_MACRO_SPLIT_MUSCLE_GAIN_def)
  next
    assume "selectSplit d = DEFAULT_MACRO_SPLIT_KETO"
    then show ?thesis
      using keto by (simp add: DEFAULT_MACRO_SPLIT_KETO_def)
  next
    assume "selectSplit d = DEFAULT_MACRO_SPLIT_WEIGHT_LOSS"
    then show ?thesis
      using loss by (simp add: DEFAULT_MACRO_SPLIT_WEIGHT_LOSS_def)
  next
    assume "selectSplit d = DEFAULT_MACRO_SPLIT_GENERAL"
    then show ?thesis
      using loss by (simp add: DEFAULT_MACRO_SPLIT_GENERAL_def)
  qed
qed

section \<open>Energy calculator\<close>






section \<open>Macro planner\<close>

text \<open>
  Claim C3. The calories that \<^verbatim>\<open>suggestMacros\<close> returns are the rounded weighted sum of
  the grams it returns, \<open>round(protein*4 + carbs*4 + fat*9)\<close>; the grams being whole
  numbers, the calories are that weighted sum itself.
\<close>

theorem suggestMacros_consistent:
  "real_of_int (Math_round (protein (suggestMacros t g w) * 4 + carbs (suggestMacros t g w) * 4
                            + fat (suggestMacros t g w) * 9))
     = calories (suggestMacros t g w)
   \<and> calories (suggestMacros t g w)
     = protein (suggestMacros t g w) * 4 + carbs (suggestMacros t g w) * 4
       + fat (suggestMacros t g w) * 9"
proof -
  define p where "p = Math_round (adjustedCalories t g w * proteinRatio (selectSplit (planDescription g)) / 4)"
  define c where "c = Math_round (adjustedCalories t g w * carbRatio (selectSplit (planDescription g)) / 4)"
  define f where "f = Math_round (adjustedCalories t g w * fatRatio (selectSplit (planDescription g)) / 9)"
  have sm: "suggestMacros t g w =
      \<lparr>protein = real_of_int p, carbs = real_of_int c, fat = real_of_int f,
       calories = real_of_int (Math_round (real_of_int p * 4 + real_of_int c * 4 + real_of_int f * 9))\<rparr>"
    by (simp add: suggestMacros_def Let_def p_def c_def f_def PROTEIN_KCAL_PER_GRAM_def
        CARBS_KCAL_PER_GRAM_def FAT_KCAL_PER_GRAM_def)
  have "real_of_int p * 4 + real_of_int c * 4 + real_of_int f * 9 = real_of_int (p * 4 + c * 4 + f * 9)"
    by simp
  then have "Math_round (real_of_int p * 4 + real_of_int c * 4 + real_of_int f * 9) = p * 4 + c * 4 + f * 9"
    by (simp only: Math_round_of_int)
  with sm show ?thesis by simp
qed

text \<open>
  Claim C4 says that the returned calories are never below 1200. The floor is applied to
  the intermediate target only; the returned figure is recomputed from the rounded grams
  and can fall below it: a maintenance of 1200 kcal on the keto split gives 75 g, 15 g
  and 93 g, that is 1197 kcal.
\<close>

theorem suggestMacros_below_floor:
  "calories (suggestMacros 1200 \<lparr>targetWeightKg = 70, targetDate = ''2026-01-01'',
                                planDescription = ''keto''\<rparr> 70) = 1197
   \<and> \<not> 1200 \<le> calories (suggestMacros 1200 \<lparr>targetWeightKg = 70, targetDate = ''2026-01-01'',
                                planDescription = ''keto''\<rparr> 70)"
proof -
  have a: "adjustedCalories 1200 \<lparr>targetWeightKg = 70, targetDate = ''2026-01-01'',
                                planDescription = ''keto''\<rparr> 70 = 1200"
    by (simp add: adjustedCalories_def)
  have "calories (suggestMacros 1200 \<lparr>targetWeightKg = 70, targetDate = ''2026-01-01'',
                                planDescription = ''keto''\<rparr> 70) = 1197"
    by (simp add: suggestMacros_def a selectSplit_keto DEFAULT_MACRO_SPLIT_KETO_def Math_round_def
        PROTEIN_KCAL_PER_GRAM_def CARBS_KCAL_PER_GRAM_def FAT_KCAL_PER_GRAM_def)
  then show ?thesis by simp
qed

text \<open>
  Claim C4, amended. The calories that \<^verbatim>\<open>suggestMacros\<close> returns are at least 1197,
  for every tdee, goals and current weight. They are recomputed from the rounded grams of
  an intermediate target that is at least 1200, and differ from that target by at most
  8.5 kcal (half a gram of each macro).
\<close>

theorem suggestMacros_near_floor:
  "1200 \<le> adjustedCalories t g w
   \<and> \<bar>calories (suggestMacros t g w) - adjustedCalories t g w\<bar> \<le> 17 / 2
   \<and> 1197 \<le> calories (suggestMacros t g w)"
proof -
  define a where "a = adjustedCalories t g w"
  define rp where "rp = proteinRatio (selectSplit (planDescription g))"
  define rc where "rc = carbRatio (selectSplit (planDescription g))"
  define rf where "rf = fatRatio (selectSplit (planDescription g))"
  define p where "p = Math_round (a * rp / 4)"
  define c where "c = Math_round (a * rc / 4)"
  define f where "f = Math_round (a * rf / 9)"
  have sum1: "rp + rc + rf = 1"
    unfolding rp_def rc_def rf_def by (rule split_ratios_sum)
  have a_ge: "1200 \<le> a"
    unfolding a_def by (rule adjustedCalories_floor)
  have "Math_round (real_of_int p * 4 + real_of_int c * 4 + real_of_int f * 9) = p * 4 + c * 4 + f * 9"
    using Math_round_of_int [of "p * 4 + c * 4 + f * 9"] by simp
  then have cal: "calories (suggestMacros t g w) = real_of_int (p * 4 + c * 4 + f * 9)"
    by (simp add: suggestMacros_def Let_def p_def c_def f_def a_def rp_def rc_def rf_def
        PROTEIN_KCAL_PER_GRAM_def CARBS_KCAL_PER_GRAM_def FAT_KCAL_PER_GRAM_def)
  have pl: "a * rp / 4 - 1 / 2 < real_of_int p" and pu: "real_of_int p \<le> a * rp / 4 + 1 / 2"
    unfolding p_def by (rule Math_round_lower, rule Math_round_upper)
  have cl: "a * rc / 4 - 1 / 2 < real_of_int c" and cu: "real_of_int c \<le> a * rc / 4 + 1 / 2"
    unfolding c_def by (rule Math_round_lower, rule Math_round_upper)
  have fl: "a * rf / 9 - 1 / 2 < real_of_int f" and fu: "real_of_int f \<le> a * rf / 9 + 1 / 2"
    unfolding f_def by (rule Math_round_lower, rule Math_round_upper)
  have tot: "a * rp + a * rc + a * rf = a"
    using sum1 by (metis distrib_left mult.right_neutral)
  have lo: "a - 17 / 2 < real_of_int (p * 4 + c * 4 + f * 9)"
    using pl cl fl tot by simp
  have hi: "real_of_int (p * 4 + c * 4 + f * 9) \<le> a + 17 / 2"
    using pu cu fu tot by simp
  have "1197 \<le> p * 4 + c * 4 + f * 9"
    unfolding p_def c_def f_def rp_def rc_def rf_def by (rule weighted_grams_floor [OF a_ge])
  then have "1197 \<le> real_of_int (p * 4 + c * 4 + f * 9)"
    by linarith
  with lo hi a_ge show ?thesis
    unfolding cal a_def [symmetric] by linarith
qed

text \<open>The keyword tests of \<^verbatim>\<open>suggestMacros\<close> are case-insensitive substring matches.\<close>

lemma str_includes_sublist: "str_includes s t \<longleftrightarrow> sublist t s"
proof (induction s)
  case Nil
  show ?case by simp
next
  case (Cons c cs)
  show ?case
    by (simp only: str_includes.simps Cons.IH sublist_Cons_right)
qed

lemma toLowerCase_append: "toLowerCase (xs @ ys) = toLowerCase xs @ toLowerCase ys"
  by (simp add: toLowerCase_def)

lemma str_includes_lower:
  "str_includes (toLowerCase s) kw \<longleftrightarrow> containsIgnoringCase s kw"
proof
  assume "str_includes (toLowerCase s) kw"
  then have "sublist kw (map toLowerChar s)"
    by (simp only: str_includes_sublist toLowerCase_def)
  then obtain a b where eq: "map toLowerChar s = a @ kw @ b"
    unfolding sublist_def by (elim exE)
  have "\<exists>us vs. s = us @ vs \<and> a = map toLowerChar us \<and> kw @ b = map toLowerChar vs"
    using eq by (simp only: map_eq_append_conv)
  then obtain pre r where s: "s = pre @ r" and r: "kw @ b = map toLowerChar r"
    by (elim exE conjE)
  have "\<exists>us vs. r = us @ vs \<and> kw = map toLowerChar us \<and> b = map toLowerChar vs"
    using r by (simp only: append_eq_map_conv)
  then obtain mid post where "r = mid @ post" and "map toLowerChar mid = kw"
    by (elim exE conjE) simp
  with s have "s = pre @ mid @ post \<and> toLowerCase mid = kw"
    by (simp add: toLowerCase_def)
  then show "containsIgnoringCase s kw"
    unfolding containsIgnoringCase_def by (intro exI)
next
  assume "containsIgnoringCase s kw"
  then obtain pre mid post where "s = pre @ mid @ post" and "toLowerCase mid = kw"
    unfolding containsIgnoringCase_def by (elim exE conjE)
  then have "toLowerCase s = toLowerCase pre @ kw @ toLowerCase post"
    by (simp add: toLowerCase_append)
  then have "sublist kw (toLowerCase s)"
    unfolding sublist_def by (intro exI)
  then show "str_includes (toLowerCase s) kw"
    by (simp only: str_includes_sublist)
qed

lemma selectSplit_byContains:
  "selectSplit d =
     (if containsIgnoringCase d ''muscle'' \<or> containsIgnoringCase d ''gain''
        then DEFAULT_MACRO_SPLIT_MUSCLE_GAIN
      else if containsIgnoringCase d ''keto'' \<or> containsIgnoringCase d ''low carb''
        then DEFAULT_MACRO_SPLIT_KETO
      else if containsIgnoringCase d ''lose weight'' \<or> containsIgnoringCase d ''fat loss''
              \<or> containsIgnoringCase d ''cut''
        then DEFAULT_MACRO_SPLIT_WEIGHT_LOSS
      else DEFAULT_MACRO_SPLIT_GENERAL)"
  unfolding selectSplit_def Let_def str_includes_lower by (rule refl)

lemma selectSplit_tone_up:
  "selectSplit ''Lose weight and tone up'' = DEFAULT_MACRO_SPLIT_WEIGHT_LOSS"
  by code_simp

text \<open>
  Claim C7. \<^verbatim>\<open>suggestMacros\<close> picks the split by case-insensitive substring match on
  the plan description, the first match winning: "muscle" or "gain" gives 0.35/0.45/0.20,
  else "keto" or "low carb" gives 0.25/0.05/0.70, else "lose weight", "fat loss" or "cut"
  gives 0.40/0.30/0.30, otherwise 0.30/0.40/0.30; "Lose weight and tone up" gets the
  weight-loss split; the grams are computed with the ratios of the split so chosen.
\<close>

theorem suggestMacros_split_precedence:
  "selectSplit d =
     (if containsIgnoringCase d ''muscle'' \<or> containsIgnoringCase d ''gain''
        then \<lparr>proteinRatio = 0.35, carbRatio = 0.45, fatRatio = 0.2\<rparr>
      else if containsIgnoringCase d ''keto'' \<or> containsIgnoringCase d ''low carb''
        then \<lparr>proteinRatio = 0.25, carbRatio = 0.05, fatRatio = 0.7\<rparr>
      else if containsIgnoringCase d ''lose weight'' \<or> containsIgnoringCase d ''fat loss''
              \<or> containsIgnoringCase d ''cut''
        then \<lparr>proteinRatio = 0.4, carbRatio = 0.3, fatRatio = 0.3\<rparr>
      else \<lparr>proteinRatio = 0.3, carbRatio = 0.4, fatRatio = 0.3\<rparr>)
   \<and> selectSplit ''Lose weight and tone up'' = \<lparr>proteinRatio = 0.4, carbRatio = 0.3, fatRatio = 0.3\<rparr>
   \<and> protein (suggestMacros t g w)
       = real_of_int (Math_round (adjustedCalories t g w
                                  * proteinRatio (selectSplit (planDescription g)) / 4))
   \<and> carbs (suggestMacros t g w)
       = real_of_int (Math_round (adjustedCalories t g w
                                  * carbRatio (selectSplit (planDescription g)) / 4))
   \<and> fat (suggestMacros t g w)
       = real_of_int (Math_round (adjustedCalories t g w
                                  * fatRatio (selectSplit (planDescription g)) / 9))"
proof -
  have grams: "protein (suggestMacros t g w)
       = real_of_int (Math_round (adjustedCalories t g w
                                  * proteinRatio (selectSplit (planDescription g)) / 4))
   \<and> carbs (suggestMacros t g w)
       = real_of_int (Math_round (adjustedCalories t g w
                                  * carbRatio (selectSplit (planDescription g)) / 4))
   \<and> fat (suggestMacros t g w)
       = real_of_int (Math_round (adjustedCalories t g w
                                  * fatRatio (selectSplit (planDescription g)) / 9))"
    by (simp add: suggestMacros_def Let_def PROTEIN_KCAL_PER_GRAM_def CARBS_KCAL_PER_GRAM_def
        FAT_KCAL_PER_GRAM_def)
  show ?thesis
    using grams
    by (simp only: selectSplit_byContains [of d] selectSplit_tone_up
        DEFAULT_MACRO_SPLIT_GENERAL_def DEFAULT_MACRO_SPLIT_MUSCLE_GAIN_def
        DEFAULT_MACRO_SPLIT_WEIGHT_LOSS_def DEFAULT_MACRO_SPLIT_KETO_def simp_thms)
qed

theorem suggestMacros_split_witness:
  "selectSplit ''Keto Cut'' = \<lparr>proteinRatio = 0.25, carbRatio = 0.05, fatRatio = 0.7\<rparr>"
proof -
  have no: "\<not> containsIgnoringCase ''Keto Cut'' ''muscle''" "\<not> containsIgnoringCase ''Keto Cut'' ''gain''"
    unfolding str_includes_lower [symmetric] by code_simp+
  have yes: "containsIgnoringCase ''Keto Cut'' ''keto''"
    unfolding str_includes_lower [symmetric] by code_simp
  show ?thesis
    using suggestMacros_split_precedence [of "''Keto Cut''"] no yes by simp
qed

section \<open>Daily ledger\<close>

lemma num_or_zero: "num_or x 0 = x"
  by (simp add: num_or_def)

lemma addEntryMacros_fields:
  "protein (addEntryMacros acc e) = protein acc + FoodEntry.protein e * num_or (quantity e) 1"
  "carbs (addEntryMacros acc e) = carbs acc + FoodEntry.carbs e * num_or (quantity e) 1"
  "fat (addEntryMacros acc e) = fat acc + FoodEntry.fat e * num_or (quantity e) 1"
  "calories (addEntryMacros acc e) = calories acc + FoodEntry.calories e * num_or (quantity e) 1"
  by (simp_all add: addEntryMacros_def Let_def num_or_zero)

lemma foldl_addEntryMacros:
  "foldl addEntryMacros acc es =
     \<lparr>protein = protein acc + (\<Sum>e\<leftarrow>es. FoodEntry.protein e * num_or (quantity e) 1),
      carbs = carbs acc + (\<Sum>e\<leftarrow>es. FoodEntry.carbs e * num_or (quantity e) 1),
      fat = fat acc + (\<Sum>e\<leftarrow>es. FoodEntry.fat e * num_or (quantity e) 1),
      calories = calories acc + (\<Sum>e\<leftarrow>es. FoodEntry.calories e * num_or (quantity e) 1)\<rparr>"
proof (induction es arbitrary: acc)
  case Nil
  show ?case by simp
next
  case (Cons e es)
  have "foldl addEntryMacros acc (e # es) = foldl addEntryMacros (addEntryMacros acc e) es"
    by simp
  also have "\<dots> =
     \<lparr>protein = protein (addEntryMacros acc e) + (\<Sum>e\<leftarrow>es. FoodEntry.protein e * num_or (quantity e) 1),
      carbs = carbs (addEntryMacros acc e) + (\<Sum>e\<leftarrow>es. FoodEntry.carbs e * num_or (quantity e) 1),
      fat = fat (addEntryMacros acc e) + (\<Sum>e\<leftarrow>es. FoodEntry.fat e * num_or (quantity e) 1),
      calories = calories (addEntryMacros acc e) + (\<Sum>e\<leftarrow>es. FoodEntry.calories e * num_or (quantity e) 1)\<rparr>"
    by (rule Cons.IH)
  finally show ?case
    by (simp add: addEntryMacros_fields add.assoc)
qed

lemma sumFoodEntryMacros_sums:
  "sumFoodEntryMacros es =
     \<lparr>protein = (\<Sum>e\<leftarrow>es. FoodEntry.protein e * num_or (quantity e) 1),
      carbs = (\<Sum>e\<leftarrow>es. FoodEntry.carbs e * num_or (quantity e) 1),
      fat = (\<Sum>e\<leftarrow>es. FoodEntry.fat e * num_or (quantity e) 1),
      calories = (\<Sum>e\<leftarrow>es. FoodEntry.calories e * num_or (quantity e) 1)\<rparr>"
  by (simp add: sumFoodEntryMacros_def foldl_addEntryMacros)

lemma sum_list_cong_set: "(\<And>x. x \<in> set xs \<Longrightarrow> f x = g x) \<Longrightarrow> (\<Sum>x\<leftarrow>xs. f x) = (\<Sum>x\<leftarrow>xs. g x :: real)"
  by (induction xs) auto

text \<open>
  The totals are the sums of \<open>field * quantity\<close> over the entries as long as no entry has
  quantity zero; the empty list gives zero totals.
\<close>

lemma sumFoodEntryMacros_totals:
  assumes "\<forall>e \<in> set es. quantity e \<noteq> 0"
  shows "sumFoodEntryMacros es =
     \<lparr>protein = (\<Sum>e\<leftarrow>es. FoodEntry.protein e * quantity e),
      carbs = (\<Sum>e\<leftarrow>es. FoodEntry.carbs e * quantity e),
      fat = (\<Sum>e\<leftarrow>es. FoodEntry.fat e * quantity e),
      calories = (\<Sum>e\<leftarrow>es. FoodEntry.calories e * quantity e)\<rparr>"
proof -
  have q: "\<And>e. e \<in> set es \<Longrightarrow> num_or (quantity e) 1 = quantity e"
    using assms by (simp add: num_or_def)
  show ?thesis
    unfolding sumFoodEntryMacros_sums
    by (simp add: q cong: sum_list_cong_set)
qed

lemma sumFoodEntryMacros_empty:
  "sumFoodEntryMacros [] = \<lparr>protein = 0, carbs = 0, fat = 0, calories = 0\<rparr>"
  by (simp add: sumFoodEntryMacros_def)

text \<open>
  Claim C5 says that every entry contributes \<open>field * quantity\<close>. An entry of quantity 0
  is counted by \<^verbatim>\<open>sumFoodEntryMacros\<close> as one serving (\<^verbatim>\<open>entry.quantity || 1\<close>): a
  single entry of 100 kcal with quantity 0 gives totals of 100 kcal where the claim gives 0.
\<close>

theorem sumFoodEntryMacros_zero_quantity:
  "sumFoodEntryMacros
     [\<lparr>entryId = ''e1'', name = ''Rice'', calories = 100, protein = 10, carbs = 20, fat = 5,
       servingSize = ''1 cup'', quantity = 0, loggedAt = ''2026-01-01T08:00:00.000Z'',
       mealTime = ''2026-01-01T08:00:00.000Z''\<rparr>]
   = \<lparr>protein = 10, carbs = 20, fat = 5, calories = 100\<rparr>"
  by (simp add: sumFoodEntryMacros_def addEntryMacros_def num_or_def)

text \<open>
  Claim C6 takes the ratio to be \<open>round(tdee*1.15) / targetMacros.calories\<close> unless the
  target calories are 0. The code tests \<^verbatim>\<open>targetMacros.calories > 0\<close>, so a negative
  calorie target also gets ratio 1: with a target of -2000 kcal and 150 g protein the code
  returns 150 g where the claim's ratio gives -216 g.
\<close>

theorem determineEffectiveGoals_negative_target:
  "protein (determineEffectiveGoals
      (Some \<lparr>personalDetails = \<lparr>age = 30, sex = Sex_MALE, heightCm = 175, currentWeightKg = 70\<rparr>,
             activityLevel = ''Sedentary (little or no exercise)'',
             goals = \<lparr>targetWeightKg = 70, targetDate = ''2026-01-01'',
                      planDescription = ''General fitness and health improvement.''\<rparr>,
             dietaryPreferences = \<lparr>interestedInIF = False,
                      ifProtocol = DEFAULT_IF_PROTOCOLS SIXTEEN_EIGHT,
                      interestedInRefeedDays = True\<rparr>,
             calculatedNutrition = \<lparr>bmr = 1649, tdee = 2500\<rparr>,
             targetMacros = \<lparr>protein = 150, carbs = 200, fat = 67, calories = - 2000\<rparr>,
             quizCompleted = True\<rparr>) True) = 150
   \<and> real_of_int (Math_round (150 * (real_of_int (Math_round (2500 * 1.15)) / (- 2000)))) = - 216"
  by (simp add: determineEffectiveGoals_def Math_round_def Let_def)

text \<open>
  Claim C6, amended. With a profile present, the effective goals are the target macros
  unchanged unless the day is a refeed day and refeed days are enabled; when both hold the
  calories are \<open>round(tdee*1.15)\<close> and protein, carbs and fat are each
  \<open>round(target * ratio)\<close>, where the ratio is that calorie figure divided by the target
  calories, and 1 when the target calories are 0 or negative. For a TDEE of 2500 and
  targets 2000/150/200/67 this gives 2875/216/288/96.
\<close>

theorem determineEffectiveGoals_refeed:
  "(\<not> (isRefeed \<and> interestedInRefeedDays (dietaryPreferences up))
      \<longrightarrow> determineEffectiveGoals (Some up) isRefeed = targetMacros up)
   \<and> (isRefeed \<and> interestedInRefeedDays (dietaryPreferences up)
      \<longrightarrow> determineEffectiveGoals (Some up) isRefeed
          = (let refeedCalories = real_of_int (Math_round (tdee (calculatedNutrition up) * 1.15));
                 ratio = (if calories (targetMacros up) \<le> 0 then 1
                          else refeedCalories / calories (targetMacros up))
             in \<lparr>protein = real_of_int (Math_round (protein (targetMacros up) * ratio)),
                 carbs = real_of_int (Math_round (carbs (targetMacros up) * ratio)),
                 fat = real_of_int (Math_round (fat (targetMacros up) * ratio)),
                 calories = refeedCalories\<rparr>))
   \<and> (tdee (calculatedNutrition up) = 2500
        \<and> targetMacros up = \<lparr>protein = 150, carbs = 200, fat = 67, calories = 2000\<rparr>
        \<and> interestedInRefeedDays (dietaryPreferences up)
      \<longrightarrow> determineEffectiveGoals (Some up) True
          = \<lparr>protein = 216, carbs = 288, fat = 96, calories = 2875\<rparr>)"
  by (simp add: determineEffectiveGoals_def Math_round_def Let_def)

theorem determineEffectiveGoals_witness:
  "determineEffectiveGoals
      (Some \<lparr>personalDetails = \<lparr>age = 30, sex = Sex_MALE, heightCm = 175, currentWeightKg = 70\<rparr>,
             activityLevel = ''Sedentary (little or no exercise)'',
             goals = \<lparr>targetWeightKg = 70, targetDate = ''2026-01-01'',
                      planDescription = ''General fitness and health improvement.''\<rparr>,
             dietaryPreferences = \<lparr>interestedInIF = False,
                      ifProtocol = DEFAULT_IF_PROTOCOLS SIXTEEN_EIGHT,
                      interestedInRefeedDays = True\<rparr>,
             calculatedNutrition = \<lparr>bmr = 1649, tdee = 2500\<rparr>,
             targetMacros = \<lparr>protein = 150, carbs = 200, fat = 67, calories = 2000\<rparr>,
             quizCompleted = True\<rparr>) True
     = \<lparr>protein = 216, carbs = 288, fat = 96, calories = 2875\<rparr>
   \<and> determineEffectiveGoals
      (Some \<lparr>personalDetails = \<lparr>age = 30, sex = Sex_MALE, heightCm = 175, currentWeightKg = 70\<rparr>,
             activityLevel = ''Sedentary (little or no exercise)'',
             goals = \<lparr>targetWeightKg = 70, targetDate = ''2026-01-01'',
                      planDescription = ''General fitness and health improvement.''\<rparr>,
             dietaryPreferences = \<lparr>interestedInIF = False,
                      ifProtocol = DEFAULT_IF_PROTOCOLS SIXTEEN_EIGHT,
                      interestedInRefeedDays = True\<rparr>,
             calculatedNutrition = \<lparr>bmr = 1649, tdee = 2500\<rparr>,
             targetMacros = \<lparr>protein = 150, carbs = 200, fat = 67, calories = 2000\<rparr>,
             quizCompleted = True\<rparr>) False
     = \<lparr>protein = 150, carbs = 200, fat = 67, calories = 2000\<rparr>"
proof -
  let ?up = "\<lparr>personalDetails = \<lparr>age = 30, sex = Sex_MALE, heightCm = 175, currentWeightKg = 70\<rparr>,
             activityLevel = ''Sedentary (little or no exercise)'',
             goals = \<lparr>targetWeightKg = 70, targetDate = ''2026-01-01'',
                      planDescription = ''General fitness and health improvement.''\<rparr>,
             dietaryPreferences = \<lparr>interestedInIF = False,
                      ifProtocol = DEFAULT_IF_PROTOCOLS SIXTEEN_EIGHT,
                      interestedInRefeedDays = True\<rparr>,
             calculatedNutrition = \<lparr>bmr = 1649, tdee = 2500\<rparr>,
             targetMacros = \<lparr>protein = 150, carbs = 200, fat = 67, calories = 2000\<rparr>,
             quizCompleted = True\<rparr>"
  show ?thesis
    using determineEffectiveGoals_refeed [of True ?up] determineEffectiveGoals_refeed [of False ?up]
    by simp
qed

section \<open>Fasting timer\<close>

lemma timer_inv_initial: "timer_inv (INITIAL_FASTING_TIMER_STATE p)"
  by (simp add: timer_inv_def INITIAL_FASTING_TIMER_STATE_def)

lemma timer_inv_start: "timer_inv s \<Longrightarrow> timer_inv (handleStartFast up now s)"
  by (simp add: timer_inv_def handleStartFast_def Let_def)

lemma timer_inv_flip:
  "timer_inv s \<Longrightarrow> timer_inv (snd (calculateRemainingTime now n1 n2 s))"
  by (auto simp: timer_inv_def calculateRemainingTime_def remainingMs_def flipPhase_def Let_def
      split: option.splits if_splits)

lemma timer_inv_pause_resume: "timer_inv s \<Longrightarrow> timer_inv (handlePauseResumeFast now s)"
  by (auto simp: timer_inv_def handlePauseResumeFast_def Let_def split: option.splits)

lemma timer_inv_end: "timer_inv s \<Longrightarrow> timer_inv (handleEndFast up s)"
  by (simp add: handleEndFast_def timer_inv_initial split: option.splits)

lemma timer_inv_protocol:
  "timer_inv (timerState c) \<Longrightarrow> timer_inv (timerState (handleProtocolChange ty c))"
  "timer_inv (timerState c) \<Longrightarrow> timer_inv (timerState (handleCustomHoursChange nm v c))"
  by (simp_all add: timer_inv_def handleProtocolChange_def handleCustomHoursChange_def Let_def)

text \<open>
  Claim C1. For an active timer (in the shape every handler produces) paused at \<open>t_p\<close>
  and resumed at \<open>t_r\<close>: the pause sets the status and \<^verbatim>\<open>lastPauseTime\<close>; the resume
  adds \<open>t_r - t_p\<close> to \<^verbatim>\<open>pausedDurationMs\<close> and to \<^verbatim>\<open>endTime\<close>, clears
  \<^verbatim>\<open>lastPauseTime\<close> and makes the timer active again, so that the remaining time right
  after the resume is the remaining time at the pause.
\<close>

theorem pause_resume_preserves_remaining:
  assumes "timer_inv s" and "status s = ACTIVE" and "endTime s = Some e"
  shows "handlePauseResumeFast t_p s = s\<lparr>status := PAUSED, lastPauseTime := Some t_p\<rparr>
         \<and> handlePauseResumeFast t_r (handlePauseResumeFast t_p s)
             = s\<lparr>status := ACTIVE, endTime := Some (e + (t_r - t_p)),
                 pausedDurationMs := pausedDurationMs s + (t_r - t_p), lastPauseTime := None\<rparr>
         \<and> remainingMs t_p s = Some (e - t_p)
         \<and> remainingMs t_r (handlePauseResumeFast t_r (handlePauseResumeFast t_p s))
             = Some (e - t_p)"
proof -
  from assms obtain ps where ps: "phaseStartTime s = Some ps"
    by (auto simp: timer_inv_def)
  have pause: "handlePauseResumeFast t_p s = s\<lparr>status := PAUSED, lastPauseTime := Some t_p\<rparr>"
    using assms(2) by (simp add: handlePauseResumeFast_def)
  have resume: "handlePauseResumeFast t_r (s\<lparr>status := PAUSED, lastPauseTime := Some t_p\<rparr>)
             = s\<lparr>status := ACTIVE, endTime := Some (e + (t_r - t_p)),
                 pausedDurationMs := pausedDurationMs s + (t_r - t_p), lastPauseTime := None\<rparr>"
    using assms(3) ps by (simp add: handlePauseResumeFast_def Let_def)
  have before: "remainingMs t_p s = Some (e - t_p)"
    using assms(2,3) by (simp add: remainingMs_def)
  have after: "remainingMs t_r (s\<lparr>status := ACTIVE, endTime := Some (e + (t_r - t_p)),
                 pausedDurationMs := pausedDurationMs s + (t_r - t_p), lastPauseTime := None\<rparr>)
               = Some (e - t_p)"
    by (simp add: remainingMs_def)
  show ?thesis
    by (simp only: pause resume before after simp_thms)
qed

theorem pause_resume_witness:
  "remainingMs 10800000
     (handlePauseResumeFast 10800000 (handlePauseResumeFast 3600000
        \<lparr>status = ACTIVE, currentPhase = FASTING, startTime = Some 0, endTime = Some 57600000,
         phaseStartTime = Some 0, pausedDurationMs = 0, lastPauseTime = None,
         protocol = DEFAULT_IF_PROTOCOLS SIXTEEN_EIGHT\<rparr>))
   = Some 54000000"
proof -
  let ?s = "\<lparr>status = ACTIVE, currentPhase = FASTING, startTime = Some 0,
             endTime = Some 57600000, phaseStartTime = Some 0, pausedDurationMs = 0,
             lastPauseTime = None, protocol = DEFAULT_IF_PROTOCOLS SIXTEEN_EIGHT\<rparr>"
  have "timer_inv ?s" and "status ?s = ACTIVE" and "endTime ?s = Some 57600000"
    by (simp_all add: timer_inv_def)
  from pause_resume_preserves_remaining [OF this, where t_p = 3600000 and t_r = 10800000]
  have "remainingMs 10800000 (handlePauseResumeFast 10800000 (handlePauseResumeFast 3600000 ?s))
        = Some (57600000 - 3600000)"
    by (elim conjE)
  then show ?thesis by simp
qed

lemma opt_or_zero: "opt_or x 0 = (case x of None \<Rightarrow> 0 | Some n \<Rightarrow> n)"
  by (simp add: opt_or_def split: option.splits)

lemma calculateRemainingTime_state:
  assumes "status s = ACTIVE" and "endTime s = Some e"
  shows "snd (calculateRemainingTime now n1 n2 s) = (if e \<le> now then flipPhase n1 n2 s else s)"
  using assms by (simp add: calculateRemainingTime_def remainingMs_def)

text \<open>
  Claim C2. A sampling step on an active timer whose end time has been reached
  (\<open>now \<ge> endTime\<close>) flips the phase, sets \<^verbatim>\<open>phaseStartTime\<close> to \<open>now\<close>, sets
  \<^verbatim>\<open>endTime\<close> to \<open>now\<close> plus the new phase's hours (missing hours counting as 0) times
  3600000, and resets \<^verbatim>\<open>pausedDurationMs\<close> to 0; before the end time the step changes
  nothing. The last conjunct gives the same with the clock reads of the update kept apart.
\<close>

theorem tick_phase_flip:
  assumes "status s = ACTIVE" and "endTime s = Some e"
  shows "(e \<le> now \<longrightarrow>
            currentPhase (tick now s) = (if currentPhase s = FASTING then EATING else FASTING)
            \<and> phaseStartTime (tick now s) = Some now
            \<and> endTime (tick now s)
                = Some (now + (case (if currentPhase s = FASTING then eatingHours (protocol s)
                                     else fastingHours (protocol s))
                               of None \<Rightarrow> 0 | Some h \<Rightarrow> h) * 3600000)
            \<and> pausedDurationMs (tick now s) = 0)
         \<and> (now < e \<longrightarrow> tick now s = s)
         \<and> snd (calculateRemainingTime now nowStart nowEnd s)
             = (if e \<le> now
                then s\<lparr>currentPhase := (if currentPhase s = FASTING then EATING else FASTING),
                       startTime := Some nowStart,
                       endTime := Some (nowEnd
                          + (case (if currentPhase s = FASTING then eatingHours (protocol s)
                                   else fastingHours (protocol s))
                             of None \<Rightarrow> 0 | Some h \<Rightarrow> h) * 3600000),
                       phaseStartTime := Some nowStart, pausedDurationMs := 0\<rparr>
                else s)"
  using assms
  by (cases "currentPhase s")
     (simp_all add: tick_def calculateRemainingTime_state flipPhase_def Let_def opt_or_zero)

theorem tick_phase_flip_witness:
  "currentPhase (tick 57600000
     \<lparr>status = ACTIVE, currentPhase = FASTING, startTime = Some 0, endTime = Some 57600000,
      phaseStartTime = Some 0, pausedDurationMs = 120000, lastPauseTime = None,
      protocol = DEFAULT_IF_PROTOCOLS SIXTEEN_EIGHT\<rparr>) = EATING
   \<and> endTime (tick 57600000
     \<lparr>status = ACTIVE, currentPhase = FASTING, startTime = Some 0, endTime = Some 57600000,
      phaseStartTime = Some 0, pausedDurationMs = 120000, lastPauseTime = None,
      protocol = DEFAULT_IF_PROTOCOLS SIXTEEN_EIGHT\<rparr>) = Some 86400000
   \<and> pausedDurationMs (tick 57600000
     \<lparr>status = ACTIVE, currentPhase = FASTING, startTime = Some 0, endTime = Some 57600000,
      phaseStartTime = Some 0, pausedDurationMs = 120000, lastPauseTime = None,
      protocol = DEFAULT_IF_PROTOCOLS SIXTEEN_EIGHT\<rparr>) = 0
   \<and> pausedDurationMs (tick 57599999
     \<lparr>status = ACTIVE, currentPhase = FASTING, startTime = Some 0, endTime = Some 57600000,
      phaseStartTime = Some 0, pausedDurationMs = 120000, lastPauseTime = None,
      protocol = DEFAULT_IF_PROTOCOLS SIXTEEN_EIGHT\<rparr>) = 120000"
proof -
  let ?s = "\<lparr>status = ACTIVE, currentPhase = FASTING, startTime = Some 0,
             endTime = Some 57600000, phaseStartTime = Some 0, pausedDurationMs = 120000,
             lastPauseTime = None, protocol = DEFAULT_IF_PROTOCOLS SIXTEEN_EIGHT\<rparr>"
  have h: "status ?s = ACTIVE" "endTime ?s = Some 57600000"
    by simp_all
  show ?thesis
    using tick_phase_flip [OF h, of 57600000 0 0] tick_phase_flip [OF h, of 57599999 0 0]
    by (simp add: DEFAULT_IF_PROTOCOLS_def)
qed

text \<open>
  Claim C10. When the flip fires it also overwrites \<^verbatim>\<open>startTime\<close> with the flip instant,
  the value given to \<^verbatim>\<open>phaseStartTime\<close>; status, \<^verbatim>\<open>lastPauseTime\<close> and protocol are
  the only fields it leaves alone.
\<close>

theorem flip_overwrites_startTime:
  assumes "status s = ACTIVE" and "endTime s = Some e" and "e \<le> now"
  shows "startTime (tick now s) = Some now
         \<and> startTime (tick now s) = phaseStartTime (tick now s)
         \<and> status (tick now s) = status s
         \<and> lastPauseTime (tick now s) = lastPauseTime s
         \<and> protocol (tick now s) = protocol s
         \<and> currentPhase (tick now s) \<noteq> currentPhase s
         \<and> tick now s = s\<lparr>currentPhase := currentPhase (tick now s),
                            startTime := Some now,
                            endTime := endTime (tick now s),
                            phaseStartTime := Some now,
                            pausedDurationMs := 0\<rparr>
         \<and> startTime (snd (calculateRemainingTime now nowStart nowEnd s)) = Some nowStart
         \<and> phaseStartTime (snd (calculateRemainingTime now nowStart nowEnd s)) = Some nowStart"
  using assms
  by (cases "currentPhase s")
     (simp_all add: tick_def calculateRemainingTime_state flipPhase_def Let_def)

theorem flip_overwrites_startTime_witness:
  "startTime (tick 57600000
     \<lparr>status = ACTIVE, currentPhase = FASTING, startTime = Some 0, endTime = Some 57600000,
      phaseStartTime = Some 0, pausedDurationMs = 0, lastPauseTime = None,
      protocol = DEFAULT_IF_PROTOCOLS SIXTEEN_EIGHT\<rparr>) = Some 57600000
   \<and> startTime (tick 57600000
     \<lparr>status = ACTIVE, currentPhase = FASTING, startTime = Some 0, endTime = Some 57600000,
      phaseStartTime = Some 0, pausedDurationMs = 0, lastPauseTime = None,
      protocol = DEFAULT_IF_PROTOCOLS SIXTEEN_EIGHT\<rparr>) \<noteq> Some 0"
proof -
  let ?s = "\<lparr>status = ACTIVE, currentPhase = FASTING, startTime = Some 0,
             endTime = Some 57600000, phaseStartTime = Some 0, pausedDurationMs = 0,
             lastPauseTime = None, protocol = DEFAULT_IF_PROTOCOLS SIXTEEN_EIGHT\<rparr>"
  have h: "status ?s = ACTIVE" "endTime ?s = Some 57600000" "(57600000::int) \<le> 57600000"
    by simp_all
  from flip_overwrites_startTime [OF h, of 0 0]
  have "startTime (tick 57600000 ?s) = Some 57600000"
    by (elim conjE)
  then show ?thesis by simp
qed

section \<open>Custom protocol hours\<close>

lemma parseInt_minus5: "parseInt ''-5'' = Some (- 5)"
  by code_simp

lemma parseInt_examples:
  "parseInt ''16'' = Some 16" "parseInt '' 12abc'' = Some 12" "parseInt ''abc'' = None"
  "parseInt '''' = None" "parseInt ''0x1F'' = Some 31" "parseInt ''+7.5'' = Some 7"
  "parseInt (CHR 0xA0 # ''12'') = Some 12" "parseInt (CHR 0xA0 # ''-5'') = Some (- 5)"
  by code_simp+

lemma parseInt_nonneg:
  assumes "\<forall>cs. dropWhile isWhiteSpace v \<noteq> CHR ''-'' # cs" and "parseInt v = Some n"
  shows "0 \<le> n"
  using assms
  by (auto simp: parseInt_def Let_def split: list.splits if_splits prod.splits)

text \<open>
  Claim C9 says that every custom-hours edit leaves both hour fields non-negative. The
  handler stores what \<^verbatim>\<open>parseInt\<close> reads and checks no sign: the input "-5" makes
  \<^verbatim>\<open>fastingHours\<close> equal to -5.
\<close>

theorem handleCustomHoursChange_negative:
  "fastingHours (protocol (timerState (handleCustomHoursChange CustomFastingHours ''-5''
      \<lparr>timerState = INITIAL_FASTING_TIMER_STATE None, customFastingHours = 16,
       customEatingHours = 8\<rparr>))) = Some (- 5)
   \<and> \<not> (\<exists>h. fastingHours (protocol (timerState (handleCustomHoursChange CustomFastingHours ''-5''
      \<lparr>timerState = INITIAL_FASTING_TIMER_STATE None, customFastingHours = 16,
       customEatingHours = 8\<rparr>))) = Some h \<and> 0 \<le> h)"
  by (simp add: handleCustomHoursChange_def parseInt_minus5 opt_or_def Let_def)

text \<open>
  Claim C9, amended. After a custom-hours edit the protocol is Custom and both hour fields
  are numbers: the edited field is the integer that \<^verbatim>\<open>parseInt\<close> reads from the input,
  0 when the input is unparsable; the other field keeps its value, 0 when it was missing.
  The edited field is non-negative whenever the input, after leading white space, does not
  start with a minus sign.
\<close>

theorem handleCustomHoursChange_hours:
  "type (protocol (timerState (handleCustomHoursChange nm v c))) = CUSTOM
   \<and> fastingHours (protocol (timerState (handleCustomHoursChange nm v c)))
       = Some (if nm = CustomFastingHours then (case parseInt v of None \<Rightarrow> 0 | Some n \<Rightarrow> n)
               else (case fastingHours (protocol (timerState c)) of None \<Rightarrow> 0 | Some h \<Rightarrow> h))
   \<and> eatingHours (protocol (timerState (handleCustomHoursChange nm v c)))
       = Some (if nm = CustomEatingHours then (case parseInt v of None \<Rightarrow> 0 | Some n \<Rightarrow> n)
               else (case eatingHours (protocol (timerState c)) of None \<Rightarrow> 0 | Some h \<Rightarrow> h))
   \<and> ((\<forall>cs. dropWhile isWhiteSpace v \<noteq> CHR ''-'' # cs)
        \<longrightarrow> 0 \<le> (case parseInt v of None \<Rightarrow> 0 | Some n \<Rightarrow> n))"
proof -
  have nn: "(\<forall>cs. dropWhile isWhiteSpace v \<noteq> CHR ''-'' # cs)
        \<longrightarrow> 0 \<le> (case parseInt v of None \<Rightarrow> 0 | Some n \<Rightarrow> n)"
    using parseInt_nonneg [of v] by (cases "parseInt v") auto
  show ?thesis
    using nn by (cases nm) (simp_all add: handleCustomHoursChange_def Let_def opt_or_zero)
qed

theorem handleCustomHoursChange_witness:
  "fastingHours (protocol (timerState (handleCustomHoursChange CustomFastingHours ''abc''
      \<lparr>timerState = INITIAL_FASTING_TIMER_STATE None, customFastingHours = 16,
       customEatingHours = 8\<rparr>))) = Some 0
   \<and> eatingHours (protocol (timerState (handleCustomHoursChange CustomFastingHours ''abc''
      \<lparr>timerState = INITIAL_FASTING_TIMER_STATE None, customFastingHours = 16,
       customEatingHours = 8\<rparr>))) = Some 8
   \<and> (0::int) \<le> (case parseInt '' 12abc'' of None \<Rightarrow> 0 | Some n \<Rightarrow> n)"
proof -
  have ws: "\<forall>cs. dropWhile isWhiteSpace '' 12abc'' \<noteq> CHR ''-'' # cs"
    by (simp add: isWhiteSpace_def)
  have na: "parseInt ''abc'' = None"
    by code_simp
  show ?thesis
    using handleCustomHoursChange_hours [of CustomFastingHours "''abc''"
            "\<lparr>timerState = INITIAL_FASTING_TIMER_STATE None, customFastingHours = 16,
              customEatingHours = 8\<rparr>"]
          handleCustomHoursChange_hours [of CustomFastingHours "'' 12abc''"
            "\<lparr>timerState = INITIAL_FASTING_TIMER_STATE None, customFastingHours = 16,
              customEatingHours = 8\<rparr>"] ws na
    by (simp add: INITIAL_FASTING_TIMER_STATE_def DEFAULT_IF_PROTOCOLS_def)
qed

end
